theory Spec2Isabelle
  imports Main
begin

section \<open>Errors, random sources and the ambient state\<close>

text \<open>
  The exceptions the pipeline can raise, as values.
\<close>

datatype error =
  KeyError | IndexError | ValueError | FileNotFoundError | IntegrityError | DatabaseError

text \<open>
  A date is its day number. The source keeps dates as \<^verbatim>\<open>%Y-%m-%d\<close> strings
  (\<^verbatim>\<open>strftime\<close>) and reads them back with \<^verbatim>\<open>strptime\<close>; on such
  strings the string order (\<^verbatim>\<open>.max()\<close>) is the order of the days.
\<close>

type_synonym date = int

text \<open>
  A seeded pseudo-random generator is the sequence of its outputs and the position
  reached in it. The process holds two of them, the \<^verbatim>\<open>random\<close> module's
  and Faker's, and a calendar (\<^verbatim>\<open>'today'\<close>).
\<close>

record rng =
  seq :: "nat \<Rightarrow> nat"
  pos :: nat

record world =
  py_random :: rng
  faker_random :: rng
  today :: date

type_synonym 'a io = "world \<Rightarrow> error + 'a \<times> world"

definition ret :: "'a \<Rightarrow> 'a io" where
  "ret x w = Inr (x, w)"

definition raise :: "error \<Rightarrow> 'a io" where
  "raise e w = Inl e"

definition and_then :: "'a io \<Rightarrow> ('a \<Rightarrow> 'b io) \<Rightarrow> 'b io" where
  "and_then m f w = (case m w of Inl e \<Rightarrow> Inl e | Inr (x, w') \<Rightarrow> f x w')"

text \<open>A \<^verbatim>\<open>for\<close> loop over a list, threading the loop's variables.\<close>

fun for_loop :: "'i list \<Rightarrow> ('i \<Rightarrow> 'a \<Rightarrow> 'a io) \<Rightarrow> 'a \<Rightarrow> 'a io" where
  "for_loop [] body acc w = Inr (acc, w)"
| "for_loop (i # rest) body acc w =
     (case body i acc w of Inl e \<Rightarrow> Inl e | Inr (acc', w') \<Rightarrow> for_loop rest body acc' w')"

definition next_draw :: "rng \<Rightarrow> nat \<times> rng" where
  "next_draw r = (seq r (pos r), r\<lparr>pos := Suc (pos r)\<rparr>)"

definition py_draw :: "nat io" where
  "py_draw w = (let (d, r) = next_draw (py_random w) in Inr (d, w\<lparr>py_random := r\<rparr>))"

definition faker_draw :: "nat io" where
  "faker_draw w = (let (d, r) = next_draw (faker_random w) in Inr (d, w\<lparr>faker_random := r\<rparr>))"

definition get_today :: "date io" where
  "get_today w = Inr (today w, w)"

text \<open>
  What the libraries compute from a draw. Amounts are floats in the source; here they
  are any type \<open>'m\<close> with \<open>0\<close> and \<open>+\<close> (no law of addition is assumed), and the
  remaining float operations, the generator algorithm and Faker's providers are fields
  of a record.
\<close>

record 'm library =
  generator :: "nat \<Rightarrow> nat \<Rightarrow> nat"
  uniform :: "int \<Rightarrow> int \<Rightarrow> nat \<Rightarrow> 'm"
  py_round :: "'m \<Rightarrow> nat \<Rightarrow> 'm"
  times_int :: "'m \<Rightarrow> int \<Rightarrow> 'm"
  fake_name :: "nat \<Rightarrow> string"
  fake_email :: "nat \<Rightarrow> string"
  fake_catch_phrase :: "nat \<Rightarrow> string"
  fake_text :: "nat \<Rightarrow> nat \<Rightarrow> string"

text \<open>\<^verbatim>\<open>random.seed(s)\<close> and \<^verbatim>\<open>Faker.seed(s)\<close>: the generator restarts.\<close>

definition seed_rng :: "'m library \<Rightarrow> nat \<Rightarrow> rng" where
  "seed_rng L s = \<lparr>seq = generator L s, pos = 0\<rparr>"

text \<open>\<^verbatim>\<open>random.choice(xs)\<close>: IndexError on an empty sequence.\<close>

definition choice :: "'a list \<Rightarrow> 'a io" where
  "choice xs =
     (if xs = [] then raise IndexError
      else and_then py_draw (\<lambda>d. ret (xs ! (d mod length xs))))"

text \<open>\<^verbatim>\<open>random.randint(a, b)\<close>: ValueError on an empty range.\<close>

definition randint :: "int \<Rightarrow> int \<Rightarrow> int io" where
  "randint a b =
     (if b < a then raise ValueError
      else and_then py_draw (\<lambda>d. ret (a + int (d mod nat (b - a + 1)))))"

text \<open>
  \<^verbatim>\<open>random.sample(xs, k)\<close>: \<open>k\<close> positions of \<open>xs\<close> without replacement;
  ValueError when \<open>k\<close> is negative or larger than the population.
\<close>

fun sample_from :: "'a list \<Rightarrow> nat \<Rightarrow> 'a list io" where
  "sample_from xs 0 = ret []"
| "sample_from xs (Suc k) =
     (if xs = [] then raise ValueError
      else and_then py_draw (\<lambda>d.
        let j = d mod length xs in
        and_then (sample_from (take j xs @ drop (Suc j) xs) k) (\<lambda>chosen.
        ret (xs ! j # chosen))))"

definition sample :: "'a list \<Rightarrow> int \<Rightarrow> 'a list io" where
  "sample xs k =
     (if k < 0 \<or> int (length xs) < k then raise ValueError else sample_from xs (nat k))"

text \<open>
  \<^verbatim>\<open>fake.date_between(start_date, end_date)\<close>: a day of the closed range,
  ValueError when the range is empty.
\<close>

definition date_between :: "date \<Rightarrow> date \<Rightarrow> date io" where
  "date_between start_date end_date =
     (if end_date < start_date then raise ValueError
      else and_then faker_draw (\<lambda>d.
        ret (start_date + int (d mod nat (end_date - start_date + 1)))))"

section \<open>The five tables\<close>

record user =
  u_id :: int
  u_name :: string
  u_email :: string
  u_signup_date :: date

record 'm product =
  p_id :: int
  p_name :: string
  p_category :: string
  p_price :: 'm

record 'm order =
  o_id :: int
  o_user_id :: int
  o_order_date :: date
  o_total_amount :: 'm

record 'm order_item =
  oi_id :: int
  oi_order_id :: int
  oi_product_id :: int
  oi_quantity :: int
  oi_subtotal :: 'm

record review =
  r_id :: int
  r_user_id :: int
  r_product_id :: int
  r_rating :: int
  r_review_text :: string
  r_review_date :: date

text \<open>
  A DataFrame built by \<^verbatim>\<open>pd.DataFrame(rows)\<close> is the list of its rows. Built from
  an empty list it has no columns, so \<^verbatim>\<open>df['col']\<close> raises KeyError.
\<close>

definition column :: "('r \<Rightarrow> 'c) \<Rightarrow> 'r list \<Rightarrow> 'c list io" where
  "column f df = (if df = [] then raise KeyError else ret (map f df))"

section \<open>data_generator.py\<close>

definition generate_users :: "'m library \<Rightarrow> int \<Rightarrow> user list io" where
  "generate_users L num_users =
     for_loop [1..num_users] (\<lambda>i users.
       and_then get_today (\<lambda>t.
       and_then (date_between (t - 730) t) (\<lambda>signup_date.
       and_then faker_draw (\<lambda>n.
       and_then faker_draw (\<lambda>e.
       ret (users @ [\<lparr>u_id = i, u_name = fake_name L n, u_email = fake_email L e,
                      u_signup_date = signup_date\<rparr>])))))) []"

definition categories :: "string list" where
  "categories = [''Electronics'', ''Clothing'', ''Books'', ''Home & Garden'',
                 ''Sports'', ''Toys'', ''Beauty'', ''Food & Beverages'']"

definition generate_products :: "'m library \<Rightarrow> int \<Rightarrow> 'm product list io" where
  "generate_products L num_products =
     for_loop [1..num_products] (\<lambda>i products.
       and_then faker_draw (\<lambda>n.
       and_then (choice categories) (\<lambda>category.
       and_then py_draw (\<lambda>u.
       ret (products @ [\<lparr>p_id = i, p_name = fake_catch_phrase L n, p_category = category,
                         p_price = py_round L (uniform L 10 500 u) 2\<rparr>]))))) []"

text \<open>
  \<^verbatim>\<open>users_df[users_df['id'] == user_id]['signup_date'].values[0]\<close>: the signup date
  of the first row with that id, IndexError when there is none.
\<close>

definition signup_of :: "user list \<Rightarrow> int \<Rightarrow> date io" where
  "signup_of users_df user_id =
     (case filter (\<lambda>u. u_id u = user_id) users_df of
        [] \<Rightarrow> raise IndexError
      | u # _ \<Rightarrow> ret (u_signup_date u))"

definition generate_orders :: "'m library \<Rightarrow> user list \<Rightarrow> int \<Rightarrow> 'm order list io" where
  "generate_orders L users_df num_orders =
     and_then (column u_id users_df) (\<lambda>user_ids.
     for_loop [1..num_orders] (\<lambda>i orders.
       and_then (choice user_ids) (\<lambda>user_id.
       and_then (signup_of users_df user_id) (\<lambda>user_signup.
       and_then get_today (\<lambda>t.
       and_then (date_between user_signup t) (\<lambda>order_date.
       and_then py_draw (\<lambda>u.
       ret (orders @ [\<lparr>o_id = i, o_user_id = user_id, o_order_date = order_date,
                       o_total_amount = py_round L (uniform L 25 1000 u) 2\<rparr>]))))))) [])"

text \<open>
  \<^verbatim>\<open>products_df[products_df['id'] == product_id].iloc[0]\<close>: the first row with
  that id, IndexError when there is none.
\<close>

definition product_of :: "'m product list \<Rightarrow> int \<Rightarrow> 'm product io" where
  "product_of products_df product_id =
     (case filter (\<lambda>p. p_id p = product_id) products_df of
        [] \<Rightarrow> raise IndexError
      | p # _ \<Rightarrow> ret p)"

text \<open>
  The inner loop of \<^verbatim>\<open>generate_order_items\<close>: its variables are the list of
  order items, the next item id and the running \<^verbatim>\<open>order_total\<close>.
\<close>

definition item_step ::
  "'m::{zero,plus} library \<Rightarrow> 'm product list \<Rightarrow> int \<Rightarrow> int \<Rightarrow>
   'm order_item list \<times> int \<times> 'm \<Rightarrow> ('m order_item list \<times> int \<times> 'm) io" where
  "item_step L products_df order_id product_id st =
     (case st of (order_items, item_id, order_total) \<Rightarrow>
        and_then (product_of products_df product_id) (\<lambda>product.
        and_then (randint 1 5) (\<lambda>quantity.
        let subtotal = py_round L (times_int L (p_price product) quantity) 2 in
        ret (order_items @ [\<lparr>oi_id = item_id, oi_order_id = order_id,
                              oi_product_id = product_id, oi_quantity = quantity,
                              oi_subtotal = subtotal\<rparr>],
             item_id + 1, order_total + subtotal))))"

text \<open>
  \<^verbatim>\<open>orders_df.loc[orders_df['id'] == order_id, 'total_amount'] = value\<close>: every row with
  that id gets the value.
\<close>

definition set_total :: "int \<Rightarrow> 'm \<Rightarrow> 'm order list \<Rightarrow> 'm order list" where
  "set_total order_id v orders_df =
     map (\<lambda>row. if o_id row = order_id then row\<lparr>o_total_amount := v\<rparr> else row) orders_df"

text \<open>
  The outer loop's variables: the order items, the next item id, and \<^verbatim>\<open>orders_df\<close>,
  which the loop updates in place while it iterates over the rows it had at the start.
\<close>

definition order_step ::
  "'m::{zero,plus} library \<Rightarrow> 'm product list \<Rightarrow> int list \<Rightarrow> int \<times> int \<Rightarrow> 'm order \<Rightarrow>
   'm order_item list \<times> int \<times> 'm order list \<Rightarrow>
   ('m order_item list \<times> int \<times> 'm order list) io" where
  "order_step L products_df product_ids num_items_per_order_range order st =
     (case st of (order_items, item_id, orders_df) \<Rightarrow>
        and_then (randint (fst num_items_per_order_range) (snd num_items_per_order_range))
          (\<lambda>num_items.
        and_then (sample product_ids (min num_items (int (length product_ids))))
          (\<lambda>selected_products.
        and_then (for_loop selected_products (item_step L products_df (o_id order))
                    (order_items, item_id, 0))
          (\<lambda>(order_items', item_id', order_total).
        ret (order_items', item_id',
             set_total (o_id order) (py_round L order_total 2) orders_df)))))"

definition generate_order_items ::
  "'m::{zero,plus} library \<Rightarrow> 'm order list \<Rightarrow> 'm product list \<Rightarrow> int \<times> int \<Rightarrow>
   ('m order_item list \<times> 'm order list) io" where
  "generate_order_items L orders_df products_df num_items_per_order_range =
     and_then (column p_id products_df) (\<lambda>product_ids.
     and_then (for_loop orders_df
                 (order_step L products_df product_ids num_items_per_order_range)
                 ([], 1, orders_df))
       (\<lambda>(order_items, item_id, orders_df'). ret (order_items, orders_df')))"

text \<open>\<^verbatim>\<open>user_orders['order_date'].max()\<close> on a non-empty frame.\<close>

definition latest :: "date \<Rightarrow> date list \<Rightarrow> date" where
  "latest d ds = fold max ds d"

text \<open>
  \<^verbatim>\<open>list(set(col.unique()))\<close>: the distinct values of the column, in some order.
\<close>

definition unique_values :: "int list \<Rightarrow> int list" where
  "unique_values col = remdups col"

definition review_step ::
  "'m library \<Rightarrow> 'm order list \<Rightarrow> int list \<Rightarrow> int list \<Rightarrow> int \<Rightarrow> review list \<Rightarrow>
   review list io" where
  "review_step L orders_df ordered_users ordered_products i reviews =
     and_then (choice ordered_users) (\<lambda>user_id.
     and_then (choice ordered_products) (\<lambda>product_id.
     and_then get_today (\<lambda>t.
     and_then (case map o_order_date (filter (\<lambda>row. o_user_id row = user_id) orders_df) of
                 d # ds \<Rightarrow> date_between (latest d ds) t
               | [] \<Rightarrow> date_between (t - 365) t) (\<lambda>review_date.
     and_then (randint 1 5) (\<lambda>rating.
     and_then faker_draw (\<lambda>x.
     ret (reviews @ [\<lparr>r_id = i, r_user_id = user_id, r_product_id = product_id,
                      r_rating = rating, r_review_text = fake_text L 200 x,
                      r_review_date = review_date\<rparr>])))))))"

definition generate_reviews ::
  "'m library \<Rightarrow> user list \<Rightarrow> 'm product list \<Rightarrow> 'm order list \<Rightarrow> 'm order_item list \<Rightarrow>
   int \<Rightarrow> review list io" where
  "generate_reviews L users_df products_df orders_df order_items_df num_reviews =
     and_then (column u_id users_df) (\<lambda>user_ids.
     and_then (column p_id products_df) (\<lambda>product_ids.
     and_then (column oi_product_id order_items_df) (\<lambda>item_products.
     and_then (column o_user_id orders_df) (\<lambda>order_users.
     for_loop [1..num_reviews]
       (review_step L orders_df (unique_values order_users) (unique_values item_products))
       []))))"

record 'm dataset =
  ds_users :: "user list"
  ds_products :: "'m product list"
  ds_orders :: "'m order list"
  ds_order_items :: "'m order_item list"
  ds_reviews :: "review list"

text \<open>
  The body of \<^verbatim>\<open>generate_data\<close> with the four counts as arguments; the source
  fixes them. \<^verbatim>\<open>save_to_csv\<close> then writes each of the five tables to its file.
\<close>

definition generate_tables ::
  "'m::{zero,plus} library \<Rightarrow> int \<Rightarrow> int \<Rightarrow> int \<Rightarrow> int \<Rightarrow> 'm dataset io" where
  "generate_tables L num_users num_products num_orders num_reviews =
     and_then (generate_users L num_users) (\<lambda>users_df.
     and_then (generate_products L num_products) (\<lambda>products_df.
     and_then (generate_orders L users_df num_orders) (\<lambda>orders_df.
     and_then (generate_order_items L orders_df products_df (1, 5))
       (\<lambda>(order_items_df, orders_df').
     and_then (generate_reviews L users_df products_df orders_df' order_items_df num_reviews)
       (\<lambda>reviews_df.
     ret \<lparr>ds_users = users_df, ds_products = products_df, ds_orders = orders_df',
          ds_order_items = order_items_df, ds_reviews = reviews_df\<rparr>)))))"

definition generate_data :: "'m::{zero,plus} library \<Rightarrow> 'm dataset io" where
  "generate_data L = generate_tables L 100 50 200 150"

text \<open>
  Importing the module seeds both generators with 42 (lines 12 to 14); nothing seeds
  them again.
\<close>

definition import_module :: "'m library \<Rightarrow> world \<Rightarrow> world" where
  "import_module L w = w\<lparr>faker_random := seed_rng L 42, py_random := seed_rng L 42\<rparr>"

section \<open>database_loader.py\<close>

text \<open>
  The store is one SQLite file: its tables (absent until created) and its indexes. A
  table holds rows of one of five shapes; a flat file read by \<^verbatim>\<open>pd.read_csv\<close> is
  a frame of one of these shapes too. Amounts are ordered, for the CHECK constraints.
\<close>

datatype table = Users | Products | Orders | Order_items | Reviews

datatype 'm frame =
  User_rows "user list"
| Product_rows "'m product list"
| Order_rows "'m order list"
| Order_item_rows "'m order_item list"
| Review_rows "review list"

record 'm db =
  tables :: "table \<Rightarrow> 'm frame option"
  indexes :: "(string \<times> table) list"

definition empty_db :: "'m db" where
  "empty_db = \<lparr>tables = (\<lambda>_. None), indexes = []\<rparr>"

fun empty_frame :: "table \<Rightarrow> 'm frame" where
  "empty_frame Users = User_rows []"
| "empty_frame Products = Product_rows []"
| "empty_frame Orders = Order_rows []"
| "empty_frame Order_items = Order_item_rows []"
| "empty_frame Reviews = Review_rows []"

fun frame_length :: "'m frame \<Rightarrow> nat" where
  "frame_length (User_rows rs) = length rs"
| "frame_length (Product_rows rs) = length rs"
| "frame_length (Order_rows rs) = length rs"
| "frame_length (Order_item_rows rs) = length rs"
| "frame_length (Review_rows rs) = length rs"

text \<open>Appending a frame to a table: None when the columns do not match.\<close>

fun append_frame :: "'m frame \<Rightarrow> 'm frame \<Rightarrow> 'm frame option" where
  "append_frame (User_rows a) (User_rows b) = Some (User_rows (a @ b))"
| "append_frame (Product_rows a) (Product_rows b) = Some (Product_rows (a @ b))"
| "append_frame (Order_rows a) (Order_rows b) = Some (Order_rows (a @ b))"
| "append_frame (Order_item_rows a) (Order_item_rows b) = Some (Order_item_rows (a @ b))"
| "append_frame (Review_rows a) (Review_rows b) = Some (Review_rows (a @ b))"
| "append_frame _ _ = None"

text \<open>
  The constraints \<^verbatim>\<open>create_schema\<close> declares on a table by itself: the primary
  key, \<^verbatim>\<open>UNIQUE\<close> and the \<^verbatim>\<open>CHECK\<close>s.
\<close>

fun local_constraints :: "'m::{zero,linorder} frame \<Rightarrow> bool" where
  "local_constraints (User_rows rs) =
     (distinct (map u_id rs) \<and> distinct (map u_email rs))"
| "local_constraints (Product_rows rs) =
     (distinct (map p_id rs) \<and> list_all (\<lambda>p. 0 < p_price p) rs)"
| "local_constraints (Order_rows rs) =
     (distinct (map o_id rs) \<and> list_all (\<lambda>r. 0 \<le> o_total_amount r) rs)"
| "local_constraints (Order_item_rows rs) =
     (distinct (map oi_id rs)
      \<and> list_all (\<lambda>r. 0 < oi_quantity r \<and> 0 \<le> oi_subtotal r) rs)"
| "local_constraints (Review_rows rs) =
     (distinct (map r_id rs) \<and> list_all (\<lambda>r. 1 \<le> r_rating r \<and> r_rating r \<le> 5) rs)"

text \<open>The ids a table holds, and the \<^verbatim>\<open>FOREIGN KEY\<close> clauses of the schema.\<close>

definition user_ids_of :: "'m db \<Rightarrow> int list" where
  "user_ids_of d = (case tables d Users of Some (User_rows rs) \<Rightarrow> map u_id rs | _ \<Rightarrow> [])"

definition product_ids_of :: "'m db \<Rightarrow> int list" where
  "product_ids_of d =
     (case tables d Products of Some (Product_rows rs) \<Rightarrow> map p_id rs | _ \<Rightarrow> [])"

definition order_ids_of :: "'m db \<Rightarrow> int list" where
  "order_ids_of d = (case tables d Orders of Some (Order_rows rs) \<Rightarrow> map o_id rs | _ \<Rightarrow> [])"

definition referential_integrity :: "'m db \<Rightarrow> bool" where
  "referential_integrity d =
     ((case tables d Orders of
         Some (Order_rows rs) \<Rightarrow> list_all (\<lambda>r. o_user_id r \<in> set (user_ids_of d)) rs
       | _ \<Rightarrow> True)
      \<and> (case tables d Order_items of
         Some (Order_item_rows rs) \<Rightarrow>
           list_all (\<lambda>r. oi_order_id r \<in> set (order_ids_of d)
                         \<and> oi_product_id r \<in> set (product_ids_of d)) rs
       | _ \<Rightarrow> True)
      \<and> (case tables d Reviews of
         Some (Review_rows rs) \<Rightarrow>
           list_all (\<lambda>r. r_user_id r \<in> set (user_ids_of d)
                         \<and> r_product_id r \<in> set (product_ids_of d)) rs
       | _ \<Rightarrow> True))"

text \<open>
  A connection: the content of the file, the content as the connection sees it (with
  its uncommitted changes), whether a transaction is open, and the
  \<^verbatim>\<open>foreign_keys\<close> pragma. SQLite checks foreign keys only when the pragma is on,
  and a new connection has it off.
\<close>

record 'm connection =
  stored :: "'m db"
  view :: "'m db"
  in_transaction :: bool
  foreign_keys :: bool

type_synonym ('m, 'a) sql = "'m connection \<Rightarrow> (error + 'a) \<times> 'm connection"

definition sql_then :: "('m, 'a) sql \<Rightarrow> ('a \<Rightarrow> ('m, 'b) sql) \<Rightarrow> ('m, 'b) sql" where
  "sql_then m f c = (case m c of (Inl e, c') \<Rightarrow> (Inl e, c') | (Inr x, c') \<Rightarrow> f x c')"

text \<open>\<^verbatim>\<open>sqlite3.connect(db_name)\<close>: an absent file is created empty.\<close>

definition connect :: "'m db option \<Rightarrow> 'm connection" where
  "connect disk =
     (let d = (case disk of None \<Rightarrow> empty_db | Some d \<Rightarrow> d)
      in \<lparr>stored = d, view = d, in_transaction = False, foreign_keys = False\<rparr>)"

definition commit :: "'m connection \<Rightarrow> 'm connection" where
  "commit c = c\<lparr>stored := view c, in_transaction := False\<rparr>"

definition rollback :: "'m connection \<Rightarrow> 'm connection" where
  "rollback c = c\<lparr>view := stored c, in_transaction := False\<rparr>"

text \<open>\<^verbatim>\<open>conn.close()\<close>: what was not committed is lost; the file stays.\<close>

definition close :: "'m connection \<Rightarrow> 'm db option" where
  "close c = Some (stored c)"

text \<open>
  A schema statement (\<^verbatim>\<open>CREATE TABLE\<close>, \<^verbatim>\<open>CREATE INDEX\<close>) opens no
  transaction: outside one it is committed at once.
\<close>

definition execute_ddl :: "('m db \<Rightarrow> 'm db) \<Rightarrow> ('m, unit) sql" where
  "execute_ddl f c =
     (let v = f (view c)
      in (Inr (), if in_transaction c then c\<lparr>view := v\<rparr> else c\<lparr>view := v, stored := v\<rparr>))"

definition create_table :: "table \<Rightarrow> ('m, unit) sql" where
  "create_table tn =
     execute_ddl (\<lambda>d. if tables d tn = None
                       then d\<lparr>tables := (tables d)(tn := Some (empty_frame tn))\<rparr> else d)"

definition create_schema :: "('m, unit) sql" where
  "create_schema =
     sql_then (create_table Users) (\<lambda>_.
     sql_then (create_table Products) (\<lambda>_.
     sql_then (create_table Orders) (\<lambda>_.
     sql_then (create_table Order_items) (\<lambda>_.
     create_table Reviews))))"

text \<open>
  \<^verbatim>\<open>DELETE FROM table\<close>: a data statement, so the module opens a transaction before
  it. With the pragma on, a statement that would leave a dangling reference fails.
\<close>

definition delete_from :: "table \<Rightarrow> ('m, unit) sql" where
  "delete_from tn c =
     (case tables (view c) tn of
        None \<Rightarrow> (Inl DatabaseError, c)
      | Some _ \<Rightarrow>
          (let v = (view c)\<lparr>tables := (tables (view c))(tn := Some (empty_frame tn))\<rparr>
           in if foreign_keys c \<and> \<not> referential_integrity v
              then (Inl IntegrityError, c\<lparr>in_transaction := True\<rparr>)
              else (Inr (), c\<lparr>view := v, in_transaction := True\<rparr>)))"

text \<open>
  \<^verbatim>\<open>df.to_sql(table_name, conn, if_exists='append', index=False)\<close>: pandas inserts
  the rows in a transaction of its own making, which it commits when the insert
  succeeds and rolls back, raising again, when it fails.
\<close>

definition to_sql :: "'m::{zero,linorder} frame \<Rightarrow> table \<Rightarrow> ('m, unit) sql" where
  "to_sql df tn c =
     (case tables (view c) tn of
        None \<Rightarrow> (Inr (), commit (c\<lparr>view := (view c)\<lparr>tables := (tables (view c))(tn := Some df)\<rparr>\<rparr>))
      | Some rows \<Rightarrow>
          (case append_frame rows df of
             None \<Rightarrow> (Inl DatabaseError, rollback c)
           | Some rows' \<Rightarrow>
               (let v = (view c)\<lparr>tables := (tables (view c))(tn := Some rows')\<rparr>
                in if local_constraints rows'
                      \<and> (foreign_keys c \<longrightarrow> referential_integrity v)
                   then (Inr (), commit (c\<lparr>view := v\<rparr>))
                   else (Inl IntegrityError, rollback c))))"

definition select_count :: "table \<Rightarrow> ('m, nat) sql" where
  "select_count tn c =
     (case tables (view c) tn of
        None \<Rightarrow> (Inl DatabaseError, c)
      | Some rows \<Rightarrow> (Inr (frame_length rows), c))"

text \<open>The flat files: a path has a parsed content or does not exist.\<close>

type_synonym 'm csv_files = "string \<Rightarrow> 'm frame option"

definition load_csv_to_table ::
  "'m::{zero,linorder} csv_files \<Rightarrow> string \<Rightarrow> table \<Rightarrow> ('m, nat) sql" where
  "load_csv_to_table files csv_file table_name c =
     (case files csv_file of
        None \<Rightarrow> (Inl FileNotFoundError, c)
      | Some df \<Rightarrow>
          sql_then (delete_from table_name) (\<lambda>_.
          sql_then (to_sql df table_name) (\<lambda>_.
          select_count table_name)) c)"

definition create_index :: "string \<times> table \<Rightarrow> ('m, unit) sql" where
  "create_index ix c =
     (if tables (view c) (snd ix) = None then (Inl DatabaseError, c)
      else execute_ddl (\<lambda>d. if fst ix \<in> set (map fst (indexes d)) then d
                             else d\<lparr>indexes := indexes d @ [ix]\<rparr>) c)"

fun execute_all :: "('x \<Rightarrow> ('m, unit) sql) \<Rightarrow> 'x list \<Rightarrow> ('m, unit) sql" where
  "execute_all f [] c = (Inr (), c)"
| "execute_all f (x # xs) c =
     (case f x c of (Inl e, c') \<Rightarrow> (Inl e, c') | (Inr _, c') \<Rightarrow> execute_all f xs c')"

definition create_indexes :: "('m, unit) sql" where
  "create_indexes =
     execute_all create_index
       [(''idx_orders_user_id'', Orders), (''idx_orders_order_date'', Orders),
        (''idx_order_items_order_id'', Order_items),
        (''idx_order_items_product_id'', Order_items),
        (''idx_reviews_user_id'', Reviews), (''idx_reviews_product_id'', Reviews)]"

text \<open>The body of the \<^verbatim>\<open>try\<close> block of \<^verbatim>\<open>load_to_sqlite\<close>.\<close>

definition load_all :: "'m::{zero,linorder} csv_files \<Rightarrow> ('m, unit) sql" where
  "load_all files =
     sql_then create_schema (\<lambda>_.
     sql_then (load_csv_to_table files ''data/users.csv'' Users) (\<lambda>_.
     sql_then (load_csv_to_table files ''data/products.csv'' Products) (\<lambda>_.
     sql_then (load_csv_to_table files ''data/orders.csv'' Orders) (\<lambda>_.
     sql_then (load_csv_to_table files ''data/order_items.csv'' Order_items) (\<lambda>_.
     sql_then (load_csv_to_table files ''data/reviews.csv'' Reviews) (\<lambda>_.
     sql_then create_indexes (\<lambda>_ c. (Inr (), commit c))))))))"

text \<open>
  \<^verbatim>\<open>load_to_sqlite(db_name)\<close>, from the flat files and the store file as it is
  (None: no file): the error raised, if any, and the store file afterwards. The
  existing file is removed first; \<^verbatim>\<open>except\<close> rolls back and raises again;
  \<^verbatim>\<open>finally\<close> closes the connection.
\<close>

definition load_to_sqlite ::
  "'m::{zero,linorder} csv_files \<Rightarrow> 'm db option \<Rightarrow> error option \<times> 'm db option" where
  "load_to_sqlite files disk =
     (let removed = (if disk \<noteq> None then None else disk);
          conn = connect removed
      in case load_all files conn of
           (Inr _, c) \<Rightarrow> (None, close c)
         | (Inl e, c) \<Rightarrow> (Some e, close (rollback c)))"

section \<open>queries.py\<close>

text \<open>
  SQLite's \<^verbatim>\<open>SUM\<close> and \<^verbatim>\<open>ROUND\<close> on floats are arguments; \<open><\<close> on amounts
  is the order \<^verbatim>\<open>ORDER BY\<close> sorts by.
\<close>

record 'm sql_functions =
  sql_sum :: "'m list \<Rightarrow> 'm"
  sql_round :: "'m \<Rightarrow> nat \<Rightarrow> 'm"

record 'm sales_row =
  product_name :: string
  category :: string
  times_ordered :: nat
  total_quantity_sold :: int
  total_revenue :: 'm

text \<open>\<^verbatim>\<open>products p INNER JOIN order_items oi ON p.id = oi.product_id\<close>.\<close>

definition join_products_items ::
  "'m product list \<Rightarrow> 'm order_item list \<Rightarrow> ('m product \<times> 'm order_item) list" where
  "join_products_items ps ois =
     concat (map (\<lambda>p. map (\<lambda>oi. (p, oi)) (filter (\<lambda>oi. p_id p = oi_product_id oi) ois)) ps)"

definition group_key :: "'m product \<times> 'm order_item \<Rightarrow> int \<times> string \<times> string" where
  "group_key j = (p_id (fst j), p_name (fst j), p_category (fst j))"

definition sales_row_of ::
  "'m sql_functions \<Rightarrow> ('m product \<times> 'm order_item) list \<Rightarrow> int \<times> string \<times> string \<Rightarrow>
   'm sales_row" where
  "sales_row_of F joined k =
     (let g = filter (\<lambda>j. group_key j = k) joined
      in \<lparr>product_name = fst (snd k), category = snd (snd k),
          times_ordered = length g,
          total_quantity_sold = sum_list (map (\<lambda>j. oi_quantity (snd j)) g),
          total_revenue = sql_round F (sql_sum F (map (\<lambda>j. oi_subtotal (snd j)) g)) 2\<rparr>)"

text \<open>\<^verbatim>\<open>ORDER BY total_revenue DESC LIMIT 10\<close>.\<close>

definition order_by_revenue_desc :: "'m::linorder sales_row list \<Rightarrow> 'm sales_row list" where
  "order_by_revenue_desc rows = rev (sort_key total_revenue rows)"

text \<open>
  \<^verbatim>\<open>get_product_sales_summary(db_name)\<close> on the store file as it is: connecting to
  an absent file gives an empty database, and the query fails on a missing table.
\<close>

definition get_product_sales_summary ::
  "'m::linorder sql_functions \<Rightarrow> 'm db option \<Rightarrow> error + 'm sales_row list" where
  "get_product_sales_summary F disk =
     (let d = view (connect disk)
      in case (tables d Products, tables d Order_items) of
           (Some (Product_rows ps), Some (Order_item_rows ois)) \<Rightarrow>
             (let joined = join_products_items ps ois;
                  keys = remdups (map group_key joined)
              in Inr (take 10 (order_by_revenue_desc (map (sales_row_of F joined) keys))))
         | _ \<Rightarrow> Inl DatabaseError)"

section \<open>Example inputs\<close>

text \<open>
  A library to run the definitions on: amounts are integers (hundredths), products and
  rounding are exact, the generator seeded with \<open>s\<close> puts out \<open>s, s + 1, ...\<close>.
\<close>

definition example_library :: "int library" where
  "example_library =
     \<lparr>generator = (\<lambda>s n. s + n),
      uniform = (\<lambda>a b u. 100 * a + int u mod (100 * (b - a) + 1)),
      py_round = (\<lambda>x n. x),
      times_int = (\<lambda>x q. x * q),
      fake_name = (\<lambda>n. ''name''),
      fake_email = (\<lambda>n. ''email''),
      fake_catch_phrase = (\<lambda>n. ''phrase''),
      fake_text = (\<lambda>k n. ''text'')\<rparr>"

definition example_world :: world where
  "example_world =
     \<lparr>py_random = \<lparr>seq = (\<lambda>n. n), pos = 0\<rparr>,
      faker_random = \<lparr>seq = (\<lambda>n. n), pos = 0\<rparr>,
      today = 1000\<rparr>"

definition example_users :: "user list" where
  "example_users =
     [\<lparr>u_id = 1, u_name = ''Ann'', u_email = ''ann@example.org'', u_signup_date = 400\<rparr>,
      \<lparr>u_id = 2, u_name = ''Bob'', u_email = ''bob@example.org'', u_signup_date = 700\<rparr>]"

definition example_products :: "int product list" where
  "example_products =
     [\<lparr>p_id = 1, p_name = ''Lamp'', p_category = ''Home & Garden'', p_price = 1000\<rparr>,
      \<lparr>p_id = 2, p_name = ''Novel'', p_category = ''Books'', p_price = 2500\<rparr>]"

definition example_orders :: "int order list" where
  "example_orders =
     [\<lparr>o_id = 1, o_user_id = 1, o_order_date = 500, o_total_amount = 99999\<rparr>,
      \<lparr>o_id = 2, o_user_id = 2, o_order_date = 800, o_total_amount = 88888\<rparr>]"

definition example_order_items :: "int order_item list" where
  "example_order_items =
     [\<lparr>oi_id = 1, oi_order_id = 1, oi_product_id = 2, oi_quantity = 3, oi_subtotal = 7500\<rparr>,
      \<lparr>oi_id = 2, oi_order_id = 2, oi_product_id = 1, oi_quantity = 2, oi_subtotal = 2000\<rparr>,
      \<lparr>oi_id = 3, oi_order_id = 2, oi_product_id = 2, oi_quantity = 3, oi_subtotal = 7500\<rparr>]"

definition example_orders_totalled :: "int order list" where
  "example_orders_totalled =
     [\<lparr>o_id = 1, o_user_id = 1, o_order_date = 500, o_total_amount = 7500\<rparr>,
      \<lparr>o_id = 2, o_user_id = 2, o_order_date = 800, o_total_amount = 9500\<rparr>]"

text \<open>
  The reading of claim C1: the product is one that an order of this very user holds.
\<close>

definition in_own_order_history ::
  "'m order list \<Rightarrow> 'm order_item list \<Rightarrow> int \<Rightarrow> int \<Rightarrow> bool" where
  "in_own_order_history orders_df order_items_df user_id product_id =
     list_ex (\<lambda>item. oi_product_id item = product_id
                \<and> list_ex (\<lambda>row. o_id row = oi_order_id item \<and> o_user_id row = user_id)
                     orders_df)
       order_items_df"

definition even_world :: world where
  "even_world =
     \<lparr>py_random = \<lparr>seq = (\<lambda>n. 2 * n), pos = 0\<rparr>,
      faker_random = \<lparr>seq = (\<lambda>n. n), pos = 0\<rparr>,
      today = 1000\<rparr>"

text \<open>
  What \<^verbatim>\<open>generate_data\<close> builds from the example library and the example state
  when each table is asked two rows.
\<close>

definition example_dataset :: "int dataset" where
  "example_dataset =
     \<lparr>ds_users =
        [\<lparr>u_id = 1, u_name = ''name'', u_email = ''email'', u_signup_date = 270\<rparr>,
         \<lparr>u_id = 2, u_name = ''name'', u_email = ''email'', u_signup_date = 273\<rparr>],
      ds_products =
        [\<lparr>p_id = 1, p_name = ''phrase'', p_category = ''Electronics'', p_price = 1001\<rparr>,
         \<lparr>p_id = 2, p_name = ''phrase'', p_category = ''Books'', p_price = 1003\<rparr>],
      ds_orders =
        [\<lparr>o_id = 1, o_user_id = 1, o_order_date = 278, o_total_amount = 5009\<rparr>,
         \<lparr>o_id = 2, o_user_id = 1, o_order_date = 279, o_total_amount = 5011\<rparr>],
      ds_order_items =
        [\<lparr>oi_id = 1, oi_order_id = 1, oi_product_id = 2, oi_quantity = 2, oi_subtotal = 2006\<rparr>,
         \<lparr>oi_id = 2, oi_order_id = 1, oi_product_id = 1, oi_quantity = 3, oi_subtotal = 3003\<rparr>,
         \<lparr>oi_id = 3, oi_order_id = 2, oi_product_id = 1, oi_quantity = 2, oi_subtotal = 2002\<rparr>,
         \<lparr>oi_id = 4, oi_order_id = 2, oi_product_id = 2, oi_quantity = 3, oi_subtotal = 3009\<rparr>],
      ds_reviews =
        [\<lparr>r_id = 1, r_user_id = 1, r_product_id = 2, r_rating = 1,
          r_review_text = ''text'', r_review_date = 289\<rparr>,
         \<lparr>r_id = 2, r_user_id = 1, r_product_id = 1, r_rating = 4,
          r_review_text = ''text'', r_review_date = 291\<rparr>]\<rparr>"

section \<open>Properties\<close>

subsection \<open>Reading the results of the library calls\<close>

lemma and_then_Inr:
  "and_then m f w = Inr r \<longleftrightarrow> (\<exists>x w'. m w = Inr (x, w') \<and> f x w' = Inr r)"
  by (auto simp: and_then_def split: sum.splits)

lemma ret_Inr: "ret x w = Inr r \<longleftrightarrow> r = (x, w)"
  by (auto simp: ret_def)

lemma raise_Inr: "raise e w \<noteq> Inr r"
  by (simp add: raise_def)

lemma py_draw_Inr: "py_draw w = Inr (d, w') \<Longrightarrow> today w' = today w \<and> faker_random w' = faker_random w"
  by (auto simp: py_draw_def next_draw_def split: prod.splits)

lemma choice_Inr: "choice xs w = Inr (x, w') \<Longrightarrow> x \<in> set xs"
  by (auto simp: choice_def and_then_Inr ret_Inr raise_Inr split: if_splits)

lemma date_between_Inr:
  "date_between s e w = Inr (d, w') \<Longrightarrow> s \<le> d \<and> d \<le> e"
proof -
  assume a: "date_between s e w = Inr (d, w')"
  then have le: "s \<le> e" by (auto simp: date_between_def raise_Inr split: if_splits)
  from a le obtain k where d: "d = s + int (k mod nat (e - s + 1))"
    by (auto simp: date_between_def and_then_Inr ret_Inr)
  have "k mod nat (e - s + 1) < nat (e - s + 1)" using le by (intro mod_less_divisor) simp
  with d le show ?thesis by linarith
qed

lemma randint_Inr: "randint a b w = Inr (x, w') \<Longrightarrow> a \<le> x \<and> x \<le> b"
proof -
  assume r: "randint a b w = Inr (x, w')"
  then have le: "a \<le> b" by (auto simp: randint_def raise_Inr split: if_splits)
  from r le obtain k where x: "x = a + int (k mod nat (b - a + 1))"
    by (auto simp: randint_def and_then_Inr ret_Inr)
  have "k mod nat (b - a + 1) < nat (b - a + 1)" using le by (intro mod_less_divisor) simp
  with x le show ?thesis by linarith
qed

lemma column_Inr: "column f df w = Inr (c, w') \<Longrightarrow> c = map f df \<and> df \<noteq> [] \<and> w' = w"
  by (auto simp: column_def ret_Inr raise_Inr split: if_splits)

lemma get_today_Inr: "get_today w = Inr (t, w') \<longleftrightarrow> t = today w \<and> w' = w"
  by (auto simp: get_today_def)

lemma find_filter_conv:
  "find P xs = (case filter P xs of [] \<Rightarrow> None | x # _ \<Rightarrow> Some x)"
  by (induction xs) auto

lemma signup_of_Inr:
  "signup_of users_df user_id w = Inr (d, w') \<Longrightarrow>
     \<exists>u. find (\<lambda>u. u_id u = user_id) users_df = Some u \<and> u_signup_date u = d"
  by (auto simp: signup_of_def find_filter_conv ret_Inr raise_Inr split: list.splits)

lemma returned:
  "map_sum id fst r = Inr v \<Longrightarrow> \<exists>w'. r = Inr (v, w')"
  by (cases r) auto

lemma find_SomeD: "find P xs = Some x \<Longrightarrow> x \<in> set xs \<and> P x"
  by (induction xs) (auto split: if_splits)

lemma for_loop_prefix_invariant:
  assumes "for_loop xs body a w = Inr (a', w')"
    and "P [] a"
    and "\<And>pre i post b v b' v'. xs = pre @ i # post \<Longrightarrow> P pre b \<Longrightarrow> body i b v = Inr (b', v')
            \<Longrightarrow> P (pre @ [i]) b'"
  shows "P xs a'"
  using assms
proof (induction xs arbitrary: a w P)
  case Nil
  then show ?case by simp
next
  case (Cons i rest)
  from Cons.prems(1) obtain b v where step: "body i a w = Inr (b, v)"
    and rest: "for_loop rest body b v = Inr (a', w')"
    by (auto split: sum.splits)
  have "P [i] b" using Cons.prems(3)[of "[]" i rest a w b v] Cons.prems(2) step by simp
  have "(\<lambda>pre. P (i # pre)) rest a'"
  proof (rule Cons.IH[OF rest])
    show "P (i # []) b" by fact
  next
    fix pre j post c u c' u'
    assume "rest = pre @ j # post" "P (i # pre) c" "body j c u = Inr (c', u')"
    then show "P (i # pre @ [j]) c'"
      using Cons.prems(3)[of "i # pre" j post c u c' u'] by simp
  qed
  then show ?case by simp
qed

lemma for_loop_invariant:
  assumes "for_loop xs body a w = Inr (a', w')"
    and "P a"
    and "\<And>i b v b' v'. i \<in> set xs \<Longrightarrow> P b \<Longrightarrow> body i b v = Inr (b', v') \<Longrightarrow> P b'"
  shows "P a'"
  using for_loop_prefix_invariant[where P = "\<lambda>_. P", OF assms(1) assms(2)] assms(3)
  by (metis in_set_conv_decomp)


lemma order_row_ok:
  assumes c: "choice user_ids v = Inr (user_id, v1)"
    and s: "signup_of users_df user_id v1 = Inr (user_signup, v2)"
    and d: "date_between user_signup t v3 = Inr (order_date, v4)"
  shows "(\<exists>u. find (\<lambda>u. u_id u = user_id) users_df = Some u
                \<and> u_signup_date u \<le> order_date)
         \<and> (distinct (map u_id users_df) \<longrightarrow>
              (\<forall>u \<in> set users_df. u_id u = user_id \<longrightarrow> u_signup_date u \<le> order_date))"
proof -
  from signup_of_Inr[OF s] obtain u where
    u: "find (\<lambda>u. u_id u = user_id) users_df = Some u" "u_signup_date u = user_signup"
    by blast
  from date_between_Inr[OF d] have le: "user_signup \<le> order_date" by simp
  have uin: "u \<in> set users_df" "u_id u = user_id"
    using u(1) by (auto simp: find_Some_iff)
  have "u' = u" if "distinct (map u_id users_df)" "u' \<in> set users_df" "u_id u' = user_id" for u'
    using that uin by (auto simp: distinct_map dest: inj_onD)
  then show ?thesis using u le by blast
qed

text \<open>
  Claim C8: every order \<^verbatim>\<open>generate_orders\<close> returns is dated on or after the
  signup date of the user its \<open>user_id\<close> identifies: the row the source's own lookup
  finds, and, when the ids of the users table are distinct, every row with that id.
\<close>

theorem orders_after_signup:
  assumes "generate_orders L users_df num_orders w = Inr (orders, w')"
  shows "\<forall>row \<in> set orders.
           (\<exists>u. find (\<lambda>u. u_id u = o_user_id row) users_df = Some u
                \<and> u_signup_date u \<le> o_order_date row)
         \<and> (distinct (map u_id users_df) \<longrightarrow>
              (\<forall>u \<in> set users_df. u_id u = o_user_id row \<longrightarrow> u_signup_date u \<le> o_order_date row))"
proof -
  from assms obtain user_ids w0 where
    loop: "for_loop [1..num_orders] (\<lambda>i orders.
       and_then (choice user_ids) (\<lambda>user_id.
       and_then (signup_of users_df user_id) (\<lambda>user_signup.
       and_then get_today (\<lambda>t.
       and_then (date_between user_signup t) (\<lambda>order_date.
       and_then py_draw (\<lambda>u.
       ret (orders @ [\<lparr>o_id = i, o_user_id = user_id, o_order_date = order_date,
                       o_total_amount = py_round L (uniform L 25 1000 u) 2\<rparr>]))))))) [] w0
       = Inr (orders, w')"
    unfolding generate_orders_def and_then_Inr by blast
  show ?thesis
  proof (rule for_loop_invariant[OF loop])
    show "\<forall>row \<in> set []. (\<exists>u. find (\<lambda>u. u_id u = o_user_id row) users_df = Some u
                \<and> u_signup_date u \<le> o_order_date row)
         \<and> (distinct (map u_id users_df) \<longrightarrow>
              (\<forall>u \<in> set users_df. u_id u = o_user_id row \<longrightarrow> u_signup_date u \<le> o_order_date row))"
      by simp
  next
    fix i b v b' v'
    assume inv: "\<forall>row \<in> set b. (\<exists>u. find (\<lambda>u. u_id u = o_user_id row) users_df = Some u
                \<and> u_signup_date u \<le> o_order_date row)
         \<and> (distinct (map u_id users_df) \<longrightarrow>
              (\<forall>u \<in> set users_df. u_id u = o_user_id row \<longrightarrow> u_signup_date u \<le> o_order_date row))"
      and step: "and_then (choice user_ids) (\<lambda>user_id.
       and_then (signup_of users_df user_id) (\<lambda>user_signup.
       and_then get_today (\<lambda>t.
       and_then (date_between user_signup t) (\<lambda>order_date.
       and_then py_draw (\<lambda>u.
       ret (b @ [\<lparr>o_id = i, o_user_id = user_id, o_order_date = order_date,
                       o_total_amount = py_round L (uniform L 25 1000 u) 2\<rparr>])))))) v
         = Inr (b', v')"
    from step obtain user_id v1 user_signup v2 t v3 order_date v4 u where
      c: "choice user_ids v = Inr (user_id, v1)"
      and s: "signup_of users_df user_id v1 = Inr (user_signup, v2)"
      and d: "date_between user_signup t v3 = Inr (order_date, v4)"
      and b': "b' = b @ [\<lparr>o_id = i, o_user_id = user_id, o_order_date = order_date,
                       o_total_amount = py_round L (uniform L 25 1000 u) 2\<rparr>]"
      unfolding and_then_Inr ret_Inr by blast
    show "\<forall>row \<in> set b'. (\<exists>u. find (\<lambda>u. u_id u = o_user_id row) users_df = Some u
                \<and> u_signup_date u \<le> o_order_date row)
         \<and> (distinct (map u_id users_df) \<longrightarrow>
              (\<forall>u \<in> set users_df. u_id u = o_user_id row \<longrightarrow> u_signup_date u \<le> o_order_date row))"
      using inv order_row_ok[OF c s d] unfolding b' by simp
  qed
qed

theorem orders_after_signup_witness:
  "\<exists>orders w'. generate_orders example_library example_users 2 example_world = Inr (orders, w')
     \<and> orders \<noteq> [] \<and> distinct (map u_id example_users)
     \<and> (\<forall>row \<in> set orders. \<exists>u \<in> set example_users.
           u_id u = o_user_id row \<and> u_signup_date u \<le> o_order_date row)"
proof -
  have "map_sum id fst (generate_orders example_library example_users 2 example_world)
          = Inr [\<lparr>o_id = 1, o_user_id = 1, o_order_date = 400, o_total_amount = 2501\<rparr>,
                 \<lparr>o_id = 2, o_user_id = 1, o_order_date = 401, o_total_amount = 2503\<rparr>]"
    by code_simp
  from returned[OF this] obtain w' where run:
    "generate_orders example_library example_users 2 example_world
       = Inr ([\<lparr>o_id = 1, o_user_id = 1, o_order_date = 400, o_total_amount = 2501\<rparr>,
               \<lparr>o_id = 2, o_user_id = 1, o_order_date = 401, o_total_amount = 2503\<rparr>], w')"
    by blast
  have ids: "distinct (map u_id example_users)"
    by (simp add: example_users_def)
  have "\<exists>u \<in> set example_users. u_id u = o_user_id row \<and> u_signup_date u \<le> o_order_date row"
    if "row \<in> set [\<lparr>o_id = 1, o_user_id = 1, o_order_date = 400, o_total_amount = 2501\<rparr>,
               \<lparr>o_id = 2, o_user_id = 1, o_order_date = 401, o_total_amount = (2503::int)\<rparr>]"
    for row
  proof -
    from orders_after_signup[OF run] that obtain u where
      "find (\<lambda>u. u_id u = o_user_id row) example_users = Some u"
      "u_signup_date u \<le> o_order_date row"
      by blast
    with find_SomeD[OF this(1)] show ?thesis by blast
  qed
  with run ids show ?thesis by blast
qed

subsection \<open>Order items\<close>

lemma item_step_Inr:
  assumes "item_step L products_df order_id product_id (its, n, tot) w = Inr ((its', n', tot'), w')"
  shows "\<exists>it. its' = its @ [it] \<and> oi_order_id it = order_id \<and> oi_product_id it = product_id
              \<and> oi_id it = n \<and> n' = n + 1 \<and> tot' = tot + oi_subtotal it"
  using assms
  by (auto simp: item_step_def and_then_Inr ret_Inr Let_def)

lemma items_loop_Inr:
  assumes "for_loop sel (item_step L products_df order_id) (its, n, tot) w
             = Inr ((its', n', tot'), w')"
  shows "\<exists>new. its' = its @ new \<and> (\<forall>it \<in> set new. oi_order_id it = order_id)
               \<and> map oi_product_id new = sel
               \<and> tot' = foldl (+) tot (map oi_subtotal new)"
  using assms
proof (induction sel arbitrary: its n tot w)
  case Nil
  then show ?case by simp
next
  case (Cons p sel)
  from Cons.prems obtain st v where
    step: "item_step L products_df order_id p (its, n, tot) w = Inr (st, v)"
    and rest: "for_loop sel (item_step L products_df order_id) st v = Inr ((its', n', tot'), w')"
    by (auto split: sum.splits)
  obtain its1 n1 tot1 where st: "st = (its1, n1, tot1)" by (cases st) auto
  from item_step_Inr[OF step[unfolded st]] obtain it where
    it: "its1 = its @ [it]" "oi_order_id it = order_id" "oi_product_id it = p"
        "tot1 = tot + oi_subtotal it"
    by blast
  from Cons.IH[OF rest[unfolded st]] obtain new where
    new: "its' = its1 @ new" "\<forall>it \<in> set new. oi_order_id it = order_id"
         "map oi_product_id new = sel"
         "tot' = foldl (+) tot1 (map oi_subtotal new)"
    by blast
  show ?case
    by (rule exI[of _ "it # new"]) (use it new in simp)
qed

lemma order_step_Inr:
  assumes "order_step L products_df product_ids rng order (its, n, odf) w
             = Inr ((its', n', odf'), w')"
  shows "\<exists>new. its' = its @ new \<and> (\<forall>it \<in> set new. oi_order_id it = o_id order)
               \<and> odf' = set_total (o_id order)
                          (py_round L (foldl (+) 0 (map oi_subtotal new)) 2) odf"
proof -
  from assms obtain sel v its1 n1 tot1 v1 where
    loop: "for_loop sel (item_step L products_df (o_id order)) (its, n, 0) v
             = Inr ((its1, n1, tot1), v1)"
    and res: "its' = its1" "odf' = set_total (o_id order) (py_round L tot1 2) odf"
    by (auto simp: order_step_def and_then_Inr ret_Inr)
  from items_loop_Inr[OF loop] res show ?thesis by auto
qed

lemma set_total_frame:
  "map o_id (set_total k v odf) = map o_id odf"
  "map o_user_id (set_total k v odf) = map o_user_id odf"
  "map o_order_date (set_total k v odf) = map o_order_date odf"
  "length (set_total k v odf) = length odf"
  by (simp_all add: set_total_def)

text \<open>
  Claim C10: \<^verbatim>\<open>generate_order_items\<close> changes nothing of the orders table but the
  \<open>total_amount\<close> column: the table it returns has as many rows, and row by row the same
  \<open>id\<close>, \<open>user_id\<close> and \<open>order_date\<close>.
\<close>

theorem order_items_frame:
  assumes "generate_order_items L orders_df products_df num_items_per_order_range w
             = Inr ((order_items, orders_df'), w')"
  shows "length orders_df' = length orders_df
       \<and> map o_id orders_df' = map o_id orders_df
       \<and> map o_user_id orders_df' = map o_user_id orders_df
       \<and> map o_order_date orders_df' = map o_order_date orders_df"
proof -
  from assms obtain product_ids w0 n where
    loop: "for_loop orders_df
             (order_step L products_df product_ids num_items_per_order_range)
             ([], 1, orders_df) w0 = Inr ((order_items, n, orders_df'), w')"
    by (auto simp: generate_order_items_def and_then_Inr ret_Inr)
  have "(\<lambda>st. case st of (its, k, odf) \<Rightarrow>
            length odf = length orders_df
          \<and> map o_id odf = map o_id orders_df
          \<and> map o_user_id odf = map o_user_id orders_df
          \<and> map o_order_date odf = map o_order_date orders_df) (order_items, n, orders_df')"
  proof (rule for_loop_invariant[OF loop])
    show "case ([], 1, orders_df) of (its, k, odf) \<Rightarrow>
            length odf = length orders_df
          \<and> map o_id odf = map o_id orders_df
          \<and> map o_user_id odf = map o_user_id orders_df
          \<and> map o_order_date odf = map o_order_date orders_df"
      by simp
  next
    fix i b v b' v'
    assume inv: "case b of (its, k, odf) \<Rightarrow>
            length odf = length orders_df
          \<and> map o_id odf = map o_id orders_df
          \<and> map o_user_id odf = map o_user_id orders_df
          \<and> map o_order_date odf = map o_order_date orders_df"
      and step: "order_step L products_df product_ids num_items_per_order_range i b v
                   = Inr (b', v')"
    obtain its k odf where b: "b = (its, k, odf)" by (cases b) auto
    obtain its' k' odf' where b': "b' = (its', k', odf')" by (cases b') auto
    from order_step_Inr[OF step[unfolded b b']] obtain x where
      "odf' = set_total (o_id i) x odf" by blast
    with inv show "case b' of (its, k, odf) \<Rightarrow>
            length odf = length orders_df
          \<and> map o_id odf = map o_id orders_df
          \<and> map o_user_id odf = map o_user_id orders_df
          \<and> map o_order_date odf = map o_order_date orders_df"
      by (simp add: b b' set_total_frame)
  qed
  then show ?thesis by simp
qed

lemma example_order_items_run:
  "\<exists>w'. generate_order_items example_library example_orders example_products (1, 5) example_world
          = Inr ((example_order_items, example_orders_totalled), w')"
proof -
  have "map_sum id fst
          (generate_order_items example_library example_orders example_products (1, 5)
             example_world)
        = Inr (example_order_items, example_orders_totalled)"
    by code_simp
  then show ?thesis by (rule returned)
qed

theorem order_items_frame_witness:
  "\<exists>order_items orders_df' w'.
     generate_order_items example_library example_orders example_products (1, 5) example_world
       = Inr ((order_items, orders_df'), w')
     \<and> length orders_df' = length example_orders
     \<and> map o_id orders_df' = map o_id example_orders
     \<and> map o_user_id orders_df' = map o_user_id example_orders
     \<and> map o_order_date orders_df' = map o_order_date example_orders
     \<and> map o_total_amount orders_df' \<noteq> map o_total_amount example_orders"
proof -
  from example_order_items_run obtain w' where run:
    "generate_order_items example_library example_orders example_products (1, 5) example_world
       = Inr ((example_order_items, example_orders_totalled), w')"
    by blast
  have changed: "map o_total_amount example_orders_totalled \<noteq> map o_total_amount example_orders"
    by (simp add: example_orders_totalled_def example_orders_def)
  from order_items_frame[OF run] run changed show ?thesis by blast
qed

subsection \<open>Reviews\<close>

lemma latest_Max: "latest d ds = Max (set (d # ds))"
  by (simp only: latest_def Max.set_eq_fold)

lemma unique_values_set: "set (unique_values col) = set col"
  by (simp add: unique_values_def)

lemma review_step_Inr:
  assumes "review_step L orders_df ordered_users ordered_products i reviews w = Inr (reviews', w')"
  shows "\<exists>r. reviews' = reviews @ [r]
            \<and> r_user_id r \<in> set ordered_users
            \<and> r_product_id r \<in> set ordered_products
            \<and> (\<forall>d ds. map o_order_date (filter (\<lambda>row. o_user_id row = r_user_id r) orders_df)
                          = d # ds \<longrightarrow> latest d ds \<le> r_review_date r)"
proof -
  from assms obtain user_id w1 product_id w2 t w3 review_date w4 rating x where
    u: "choice ordered_users w = Inr (user_id, w1)"
    and p: "choice ordered_products w1 = Inr (product_id, w2)"
    and d: "(case map o_order_date (filter (\<lambda>row. o_user_id row = user_id) orders_df) of
               d # ds \<Rightarrow> date_between (latest d ds) t
             | [] \<Rightarrow> date_between (t - 365) t) w3 = Inr (review_date, w4)"
    and r: "reviews' = reviews @ [\<lparr>r_id = i, r_user_id = user_id, r_product_id = product_id,
                      r_rating = rating, r_review_text = fake_text L 200 x,
                      r_review_date = review_date\<rparr>]"
    unfolding review_step_def and_then_Inr ret_Inr by blast
  have "latest d ds \<le> review_date"
    if "map o_order_date (filter (\<lambda>row. o_user_id row = user_id) orders_df) = d # ds" for d ds
    using d that by (auto dest: date_between_Inr)
  with u p show ?thesis
    unfolding r by (intro exI conjI) (auto dest: choice_Inr)
qed

lemma reviews_loop:
  assumes "generate_reviews L users_df products_df orders_df order_items_df num_reviews w
             = Inr (reviews, w')"
  shows "\<forall>r \<in> set reviews.
           r_user_id r \<in> set (map o_user_id orders_df)
         \<and> r_product_id r \<in> set (map oi_product_id order_items_df)
         \<and> (\<forall>d ds. map o_order_date (filter (\<lambda>row. o_user_id row = r_user_id r) orders_df)
                        = d # ds \<longrightarrow> latest d ds \<le> r_review_date r)"
proof -
  from assms obtain w0 where
    loop: "for_loop [1..num_reviews]
             (review_step L orders_df (unique_values (map o_user_id orders_df))
                (unique_values (map oi_product_id order_items_df))) [] w0 = Inr (reviews, w')"
    by (auto simp: generate_reviews_def and_then_Inr dest!: column_Inr)
  show ?thesis
  proof (rule for_loop_invariant[OF loop])
    show "\<forall>r \<in> set [].
           r_user_id r \<in> set (map o_user_id orders_df)
         \<and> r_product_id r \<in> set (map oi_product_id order_items_df)
         \<and> (\<forall>d ds. map o_order_date (filter (\<lambda>row. o_user_id row = r_user_id r) orders_df)
                        = d # ds \<longrightarrow> latest d ds \<le> r_review_date r)"
      by simp
  next
    fix i b v b' v'
    assume inv: "\<forall>r \<in> set b.
           r_user_id r \<in> set (map o_user_id orders_df)
         \<and> r_product_id r \<in> set (map oi_product_id order_items_df)
         \<and> (\<forall>d ds. map o_order_date (filter (\<lambda>row. o_user_id row = r_user_id r) orders_df)
                        = d # ds \<longrightarrow> latest d ds \<le> r_review_date r)"
      and step: "review_step L orders_df (unique_values (map o_user_id orders_df))
                (unique_values (map oi_product_id order_items_df)) i b v = Inr (b', v')"
    from review_step_Inr[OF step] obtain r where
      r: "b' = b @ [r]"
         "r_user_id r \<in> set (unique_values (map o_user_id orders_df))"
         "r_product_id r \<in> set (unique_values (map oi_product_id order_items_df))"
         "\<forall>d ds. map o_order_date (filter (\<lambda>row. o_user_id row = r_user_id r) orders_df)
                        = d # ds \<longrightarrow> latest d ds \<le> r_review_date r"
      by blast
    from inv r show "\<forall>r \<in> set b'.
           r_user_id r \<in> set (map o_user_id orders_df)
         \<and> r_product_id r \<in> set (map oi_product_id order_items_df)
         \<and> (\<forall>d ds. map o_order_date (filter (\<lambda>row. o_user_id row = r_user_id r) orders_df)
                        = d # ds \<longrightarrow> latest d ds \<le> r_review_date r)"
      by (simp add: unique_values_set)
  qed
qed

lemma has_orders:
  "user_id \<in> set (map o_user_id orders_df) \<Longrightarrow>
     filter (\<lambda>row. o_user_id row = user_id) orders_df \<noteq> []"
  by (auto simp: filter_empty_conv)

text \<open>
  Claim C9: the reviewers are drawn from the users that have an order, so for a chosen
  reviewer the frame of the user's orders is never empty and the fallback date is never
  taken; every review is dated on or after the latest order date of its user.
\<close>

theorem review_after_latest_order:
  assumes "generate_reviews L users_df products_df orders_df order_items_df num_reviews w
             = Inr (reviews, w')"
  shows "(\<forall>user_id \<in> set (unique_values (map o_user_id orders_df)).
            filter (\<lambda>row. o_user_id row = user_id) orders_df \<noteq> [])
       \<and> (\<forall>r \<in> set reviews.
            filter (\<lambda>row. o_user_id row = r_user_id r) orders_df \<noteq> []
          \<and> Max (set (map o_order_date (filter (\<lambda>row. o_user_id row = r_user_id r) orders_df)))
              \<le> r_review_date r)"
proof (intro conjI ballI)
  fix user_id
  assume "user_id \<in> set (unique_values (map o_user_id orders_df))"
  then have "user_id \<in> set (map o_user_id orders_df)"
    by (simp add: unique_values_set)
  then show "filter (\<lambda>row. o_user_id row = user_id) orders_df \<noteq> []"
    by (rule has_orders)
next
  fix r
  assume r: "r \<in> set reviews"
  from bspec[OF reviews_loop[OF assms] r] have
    u: "r_user_id r \<in> set (map o_user_id orders_df)"
    and l: "\<forall>d ds. map o_order_date (filter (\<lambda>row. o_user_id row = r_user_id r) orders_df)
                        = d # ds \<longrightarrow> latest d ds \<le> r_review_date r"
    by (rule conjunct1, rule conjunct2[THEN conjunct2])
  from has_orders[OF u]
  show ne: "filter (\<lambda>row. o_user_id row = r_user_id r) orders_df \<noteq> []" .
  then obtain d ds where
    dds: "map o_order_date (filter (\<lambda>row. o_user_id row = r_user_id r) orders_df) = d # ds"
    by (cases "map o_order_date (filter (\<lambda>row. o_user_id row = r_user_id r) orders_df)") auto
  with l have "latest d ds \<le> r_review_date r" by simp
  then show "Max (set (map o_order_date (filter (\<lambda>row. o_user_id row = r_user_id r) orders_df)))
              \<le> r_review_date r"
    by (simp only: dds latest_Max)
qed

lemma example_reviews_run:
  "\<exists>w'. generate_reviews example_library example_users example_products example_orders_totalled
            example_order_items 1 even_world
          = Inr ([\<lparr>r_id = 1, r_user_id = 1, r_product_id = 1, r_rating = 5,
                   r_review_text = ''text'', r_review_date = 500\<rparr>], w')"
proof -
  have "map_sum id fst
          (generate_reviews example_library example_users example_products
             example_orders_totalled example_order_items 1 even_world)
        = Inr [\<lparr>r_id = 1, r_user_id = 1, r_product_id = 1, r_rating = 5,
                 r_review_text = ''text'', r_review_date = 500\<rparr>]"
    by code_simp
  then show ?thesis by (rule returned)
qed

theorem review_after_latest_order_witness:
  "\<exists>reviews w'.
     generate_reviews example_library example_users example_products example_orders_totalled
       example_order_items 1 even_world = Inr (reviews, w')
     \<and> reviews \<noteq> []
     \<and> set (unique_values (map o_user_id example_orders_totalled)) \<noteq> {}
     \<and> (\<forall>r \<in> set reviews.
           filter (\<lambda>row. o_user_id row = r_user_id r) example_orders_totalled \<noteq> []
         \<and> Max (set (map o_order_date
                        (filter (\<lambda>row. o_user_id row = r_user_id r) example_orders_totalled)))
             \<le> r_review_date r)"
proof -
  from example_reviews_run obtain w' where run:
    "generate_reviews example_library example_users example_products example_orders_totalled
       example_order_items 1 even_world
     = Inr ([\<lparr>r_id = 1, r_user_id = 1, r_product_id = 1, r_rating = 5,
              r_review_text = ''text'', r_review_date = 500\<rparr>], w')"
    by blast
  have pool: "set (unique_values (map o_user_id example_orders_totalled)) \<noteq> {}"
    by (simp add: unique_values_def example_orders_totalled_def)
  from review_after_latest_order[OF run, THEN conjunct2] run pool show ?thesis
    by blast
qed

text \<open>
  Claim C1, as written, fails: the reviewer and the product are drawn independently of
  each other. On the example tables user 1 ordered product 2 only, and the run draws
  user 1 with product 1.
\<close>

theorem review_of_unordered_product:
  "\<exists>reviews w'.
     generate_reviews example_library example_users example_products example_orders_totalled
       example_order_items 1 even_world = Inr (reviews, w')
     \<and> (\<exists>r \<in> set reviews.
           \<not> in_own_order_history example_orders_totalled example_order_items
               (r_user_id r) (r_product_id r))"
proof -
  from example_reviews_run obtain w' where run:
    "generate_reviews example_library example_users example_products example_orders_totalled
       example_order_items 1 even_world
     = Inr ([\<lparr>r_id = 1, r_user_id = 1, r_product_id = 1, r_rating = 5,
              r_review_text = ''text'', r_review_date = 500\<rparr>], w')"
    by blast
  have "\<not> in_own_order_history example_orders_totalled example_order_items 1 1"
    by (simp add: in_own_order_history_def example_orders_totalled_def example_order_items_def)
  with run show ?thesis by (intro exI conjI) (assumption, simp)
qed

text \<open>
  Claim C1, amended: the reviewer of every review is a user that has an order, and the
  product is one that some order item holds (ordered by someone, not necessarily by the
  reviewer).
\<close>

theorem review_refers_to_ordered:
  assumes "generate_reviews L users_df products_df orders_df order_items_df num_reviews w
             = Inr (reviews, w')"
  shows "\<forall>r \<in> set reviews.
           r_user_id r \<in> set (map o_user_id orders_df)
         \<and> r_product_id r \<in> set (map oi_product_id order_items_df)"
  using reviews_loop[OF assms] by blast

theorem review_refers_to_ordered_witness:
  "\<exists>reviews w'.
     generate_reviews example_library example_users example_products example_orders_totalled
       example_order_items 1 even_world = Inr (reviews, w')
     \<and> reviews \<noteq> []
     \<and> (\<forall>r \<in> set reviews.
           r_user_id r \<in> set (map o_user_id example_orders_totalled)
         \<and> r_product_id r \<in> set (map oi_product_id example_order_items))"
proof -
  from example_reviews_run obtain w' where run:
    "generate_reviews example_library example_users example_products example_orders_totalled
       example_order_items 1 even_world
     = Inr ([\<lparr>r_id = 1, r_user_id = 1, r_product_id = 1, r_rating = 5,
              r_review_text = ''text'', r_review_date = 500\<rparr>], w')"
    by blast
  from review_refers_to_ordered[OF run] run show ?thesis by blast
qed

end
